theory Spec2Isabelle
  imports Complex_Main "HOL-Library.Sublist"
begin

section \<open>The message bus: transport contract and query engine\<close>

text \<open>
  The embedding follows \<^verbatim>\<open>nplab/instrument/message_bus_instrument.py\<close>.
  A Python exception is a value of type \<open>error\<close>. Every method of an instrument is a
  function from the state of the instrument to an outcome and the state afterwards,
  so that the effects that happened before an exception was raised stay visible.
  \<open>ReError\<close> is the exception of Python's \<^verbatim>\<open>re\<close> module, \<open>Raised\<close> an exception of the
  caller's own code (a validator, say), and \<open>Unmodelled\<close> marks the library behaviour
  that this development leaves out: an outcome \<open>Unmodelled\<close> says nothing about Python.
\<close>

datatype error =
    NotImplementedError string
  | AssertionError string
  | ValueError string
  | AttributeError string
  | TypeError string
  | IndexError string
  | ReError string
  | Unmodelled string
  | Raised string

type_synonym timeout = "nat option"

text \<open>
  \<^verbatim>\<open>MessageBusInstrument\<close> leaves \<^verbatim>\<open>write\<close> and \<^verbatim>\<open>readline\<close> to its subclasses and
  gives \<^verbatim>\<open>flush_input_buffer\<close> and \<^verbatim>\<open>termination_line\<close> defaults. A \<open>bus\<close> holds
  what a subclass provides, over the state \<open>'st\<close> of that subclass.
  (The field for \<^verbatim>\<open>write\<close> is called \<open>write_msg\<close>.)
\<close>

record 'st bus =
  write_msg :: "string \<Rightarrow> 'st \<Rightarrow> (error + unit) \<times> 'st"
  flush_input_buffer :: "'st \<Rightarrow> (error + unit) \<times> 'st"
  readline :: "timeout \<Rightarrow> 'st \<Rightarrow> (error + string) \<times> 'st"
  termination_line :: "string option"

text \<open>The base class itself: both abstract methods raise, flushing does nothing.\<close>

definition MessageBusInstrument :: "'st bus" where
  "MessageBusInstrument =
     \<lparr> write_msg = (\<lambda>query_string s. (Inl (NotImplementedError
          ''Subclasses of MessageBusInstrument must override the write method!''), s)),
       flush_input_buffer = (\<lambda>s. (Inr (), s)),
       readline = (\<lambda>tmo s. (Inl (NotImplementedError
          ''Subclasses of MessageBusInstrument must override the readline method!''), s)),
       termination_line = None \<rparr>"

text \<open>\<^verbatim>\<open>EchoInstrument\<close>: the state is \<^verbatim>\<open>_last_write\<close>.\<close>

definition EchoInstrument :: "string bus" where
  "EchoInstrument =
     \<lparr> write_msg = (\<lambda>msg s. (Inr (), msg)),
       flush_input_buffer = (\<lambda>s. (Inr (), s)),
       readline = (\<lambda>tmo s. (Inr s, s)),
       termination_line = None \<rparr>"

text \<open>
  A scripted transport for the examples: it hands out the lines of \<open>pending\<close> one per
  read and the empty string once they are used up, and it logs what happens to it.
\<close>

record script =
  pending :: "string list"
  reads :: nat
  written :: "string list"
  flushes :: nat

definition scripted :: "string option \<Rightarrow> script bus" where
  "scripted tline =
     \<lparr> write_msg = (\<lambda>msg s. (Inr (), s\<lparr>written := written s @ [msg]\<rparr>)),
       flush_input_buffer = (\<lambda>s. (Inr (), s\<lparr>flushes := Suc (flushes s)\<rparr>)),
       readline = (\<lambda>tmo s. case pending s of
           [] \<Rightarrow> (Inr [], s\<lparr>reads := Suc (reads s)\<rparr>)
         | l # ls \<Rightarrow> (Inr l, s\<lparr>pending := ls, reads := Suc (reads s)\<rparr>)),
       termination_line = tline \<rparr>"

subsection \<open>\<^verbatim>\<open>read_multiline\<close>\<close>

text \<open>
  The \<^verbatim>\<open>while\<close> loop of \<^verbatim>\<open>read_multiline\<close>, with its two variables \<^verbatim>\<open>response\<close> and
  \<^verbatim>\<open>last_line\<close>. Python's \<^verbatim>\<open>a in b\<close> on strings is \<^const>\<open>sublist\<close>. The loop need not end,
  so the result is an option: \<open>None\<close> is a loop that runs forever.
\<close>

partial_function (option) read_loop ::
  "'st bus \<Rightarrow> timeout \<Rightarrow> string \<Rightarrow> string \<Rightarrow> string \<Rightarrow> 'st
     \<Rightarrow> ((error + string) \<times> 'st) option"
where
  "read_loop b tmo term response last_line s =
     (if \<not> sublist term last_line \<and> length last_line > 0 then
        (case readline b tmo s of
           (Inl e, s') \<Rightarrow> Some (Inl e, s')
         | (Inr l, s') \<Rightarrow> read_loop b tmo term (response @ l) l s')
      else Some (Inr response, s))"

definition read_multiline ::
  "'st bus \<Rightarrow> string option \<Rightarrow> timeout \<Rightarrow> 'st \<Rightarrow> ((error + string) \<times> 'st) option"
where
  "read_multiline b term_line tmo s =
     (let term_line = (case term_line of None \<Rightarrow> termination_line b | Some t \<Rightarrow> Some t) in
      case term_line of
        None \<Rightarrow> Some (Inl (AssertionError
          ''If you perform a multiline query, you must specify a termination line''), s)
      | Some t \<Rightarrow> read_loop b tmo t [] ''dummy'' s)"

subsection \<open>\<^verbatim>\<open>query\<close>\<close>

text \<open>
  \<^verbatim>\<open>str.strip()\<close> without arguments removes the whitespace of a byte string at both
  ends: space, tab, line feed, carriage return, vertical tab and form feed.
\<close>

definition isspace :: "char \<Rightarrow> bool" where
  "isspace c = (c = CHR '' '' \<or> c = CHR 0x09 \<or> c = CHR 0x0A \<or> c = CHR 0x0D
                \<or> c = CHR 0x0B \<or> c = CHR 0x0C)"

definition lstrip :: "string \<Rightarrow> string" where
  "lstrip s = dropWhile isspace s"

definition rstrip :: "string \<Rightarrow> string" where
  "rstrip s = rev (dropWhile isspace (rev s))"

definition strip :: "string \<Rightarrow> string" where
  "strip s = rstrip (lstrip s)"

definition query ::
  "'st bus \<Rightarrow> string \<Rightarrow> bool \<Rightarrow> string option \<Rightarrow> timeout \<Rightarrow> 'st
     \<Rightarrow> ((error + string) \<times> 'st) option"
where
  "query b queryString multiline term_line tmo s =
     (case flush_input_buffer b s of
        (Inl e, s1) \<Rightarrow> Some (Inl e, s1)
      | (Inr u, s1) \<Rightarrow>
     (case write_msg b queryString s1 of
        (Inl e, s2) \<Rightarrow> Some (Inl e, s2)
      | (Inr u, s2) \<Rightarrow>
     (let multiline = (if term_line \<noteq> None then True else multiline) in
      if multiline then read_multiline b term_line None s2
      else (case readline b tmo s2 of
              (Inl e, s3) \<Rightarrow> Some (Inl e, s3)
            | (Inr l, s3) \<Rightarrow> Some (Inr (strip l), s3)))))"


section \<open>Regular expressions\<close>

text \<open>
  \<^verbatim>\<open>parsed_query\<close> builds a regular expression as a string and hands it to Python's
  \<^verbatim>\<open>re\<close> module (\<^verbatim>\<open>re.sub\<close>, \<^verbatim>\<open>re.finditer\<close>, \<^verbatim>\<open>re.search\<close>). This section models the
  part of Python 2.7's \<^verbatim>\<open>re\<close> that the placeholder table uses, on byte strings and
  without flags: literals, \<^verbatim>\<open>.\<close>, sets, the escapes \<^verbatim>\<open>\d \s \w\<close> and their negations,
  greedy repeats, alternatives, capturing and non-capturing groups. Anchors, non-greedy
  repeats, back-references and group extensions are \<open>Unmodelled\<close>.
\<close>

datatype cset_item = CChar char | CRange char char | CDigit | CSpace | CWord

datatype re =
    RChar char
  | RAny
  | RSet bool "cset_item list"
  | REps
  | RSeq re re
  | RAlt re re
  | RRep nat "nat option" re
  | RGroup nat re

definition ord :: "char \<Rightarrow> nat" where
  "ord c = of_char c"

definition isdigit :: "char \<Rightarrow> bool" where
  "isdigit c = (ord CHR ''0'' \<le> ord c \<and> ord c \<le> ord CHR ''9'')"

definition isword :: "char \<Rightarrow> bool" where
  "isword c = (isdigit c \<or> c = CHR ''_''
       \<or> (ord CHR ''a'' \<le> ord c \<and> ord c \<le> ord CHR ''z'')
       \<or> (ord CHR ''A'' \<le> ord c \<and> ord c \<le> ord CHR ''Z''))"

fun in_item :: "char \<Rightarrow> cset_item \<Rightarrow> bool" where
  "in_item c (CChar a) = (c = a)"
| "in_item c (CRange a b) = (ord a \<le> ord c \<and> ord c \<le> ord b)"
| "in_item c CDigit = isdigit c"
| "in_item c CSpace = isspace c"
| "in_item c CWord = isword c"

text \<open>
  Matching is backtracking: \<open>rmatch r s c\<close> lists, in the order in which Python tries
  them, the ways in which \<open>r\<close> matches at the start of \<open>s\<close>, each as the rest of the
  input and the groups captured so far (latest first). An iteration of a repeat that
  consumes nothing ends the repetition.
\<close>

type_synonym caps = "(nat \<times> string) list"

fun rsize :: "re \<Rightarrow> nat" where
  "rsize (RSeq a b) = Suc (rsize a + rsize b)"
| "rsize (RAlt a b) = Suc (rsize a + rsize b)"
| "rsize (RRep lo hi r) = Suc (rsize r)"
| "rsize (RGroup n r) = Suc (rsize r)"
| "rsize r = 0"

function rmatch :: "re \<Rightarrow> string \<Rightarrow> caps \<Rightarrow> (string \<times> caps) list" where
  "rmatch (RChar a) s c = (case s of [] \<Rightarrow> [] | x # xs \<Rightarrow> if x = a then [(xs, c)] else [])"
| "rmatch RAny s c = (case s of [] \<Rightarrow> [] | x # xs \<Rightarrow> if x \<noteq> CHR 0x0A then [(xs, c)] else [])"
| "rmatch (RSet neg items) s c =
     (case s of [] \<Rightarrow> []
      | x # xs \<Rightarrow> if (\<exists>i\<in>set items. in_item x i) \<noteq> neg then [(xs, c)] else [])"
| "rmatch REps s c = [(s, c)]"
| "rmatch (RSeq r1 r2) s c = concat (map (\<lambda>(s1, c1). rmatch r2 s1 c1) (rmatch r1 s c))"
| "rmatch (RAlt r1 r2) s c = rmatch r1 s c @ rmatch r2 s c"
| "rmatch (RGroup n r) s c =
     map (\<lambda>(s1, c1). (s1, (n, take (length s - length s1) s) # c1)) (rmatch r s c)"
| "rmatch (RRep lo hi r) s c =
     (if hi = Some 0 then []
      else concat (map (\<lambda>(s1, c1).
              if length s1 < length s
              then rmatch (RRep (lo - 1) (map_option (\<lambda>h. h - 1) hi) r) s1 c1
              else [(s1, c1)])
            (rmatch r s c)))
     @ (if lo = 0 then [(s, c)] else [])"
  by pat_completeness auto
termination
  by (relation "measures [\<lambda>(r, s, c). rsize r, \<lambda>(r, s, c). length s]") auto


text \<open>
  Compiling a pattern: the characters become tokens, the tokens become a \<open>re\<close>. The
  functions that read ahead return the number of characters they used, and their caller
  skips that many.
\<close>

datatype tok = TAtom re | TOpen bool | TClose | TBar | TQuant nat "nat option"

definition isalnum :: "char \<Rightarrow> bool" where
  "isalnum c = (isword c \<and> c \<noteq> CHR ''_'')"

definition digit_val :: "char \<Rightarrow> nat option" where
  "digit_val c =
     (if isdigit c then Some (ord c - ord CHR ''0'')
      else if ord CHR ''a'' \<le> ord c \<and> ord c \<le> ord CHR ''z'' then Some (ord c - ord CHR ''a'' + 10)
      else if ord CHR ''A'' \<le> ord c \<and> ord c \<le> ord CHR ''Z'' then Some (ord c - ord CHR ''A'' + 10)
      else None)"

definition nat_of_digits :: "nat \<Rightarrow> string \<Rightarrow> nat" where
  "nat_of_digits base ds = foldl (\<lambda>a d. a * base + the (digit_val d)) 0 ds"

definition cons_ok :: "'a \<Rightarrow> error + 'a list \<Rightarrow> error + 'a list" where
  "cons_ok x r = (case r of Inl e \<Rightarrow> Inl e | Inr xs \<Rightarrow> Inr (x # xs))"

definition escape_item :: "char \<Rightarrow> error + (bool \<times> cset_item)" where
  \<open>escape_item d =
     (if d = CHR ''d'' then Inr (False, CDigit)
      else if d = CHR ''D'' then Inr (True, CDigit)
      else if d = CHR ''s'' then Inr (False, CSpace)
      else if d = CHR ''S'' then Inr (True, CSpace)
      else if d = CHR ''w'' then Inr (False, CWord)
      else if d = CHR ''W'' then Inr (True, CWord)
      else if d = CHR ''n'' then Inr (False, CChar (CHR 0x0A))
      else if d = CHR ''t'' then Inr (False, CChar (CHR 0x09))
      else if d = CHR ''r'' then Inr (False, CChar (CHR 0x0D))
      else if d = CHR ''f'' then Inr (False, CChar (CHR 0x0C))
      else if d = CHR ''v'' then Inr (False, CChar (CHR 0x0B))
      else if isalnum d then Inl (Unmodelled ''escape'')
      else Inr (False, CChar d))\<close>

definition escape_atom :: "char \<Rightarrow> error + re" where
  "escape_atom d =
     (case escape_item d of
        Inl e \<Rightarrow> Inl e
      | Inr (neg, CChar c) \<Rightarrow> Inr (RChar c)
      | Inr (neg, i) \<Rightarrow> Inr (RSet neg [i]))"

fun class_items :: "bool \<Rightarrow> string \<Rightarrow> error + (cset_item list \<times> nat)" where
  "class_items first [] = Inl (ReError ''unexpected end of regular expression'')"
| "class_items first (c # cs) =
     (if c = CHR '']'' \<and> \<not> first then Inr ([], 1)
      else if c = CHR 0x5C then
        (case cs of
           [] \<Rightarrow> Inl (ReError ''bogus escape (end of line)'')
         | d # cs' \<Rightarrow>
             (case escape_item d of
                Inl e \<Rightarrow> Inl e
              | Inr (neg, i) \<Rightarrow>
                  if neg then Inl (Unmodelled ''negated class escape inside a set'')
                  else if (case cs' of x # y # _ \<Rightarrow> x = CHR ''-'' \<and> y \<noteq> CHR '']'' | _ \<Rightarrow> False)
                  then Inl (Unmodelled ''range that starts with an escape'')
                  else (case class_items False cs' of
                          Inl e \<Rightarrow> Inl e
                        | Inr (is, n) \<Rightarrow> Inr (i # is, n + 2))))
      else
        (case cs of
           x # y # cs' \<Rightarrow>
             if x = CHR ''-'' \<and> y \<noteq> CHR '']'' then
               (if y = CHR 0x5C then Inl (Unmodelled ''range that ends with an escape'')
                else if ord y < ord c then Inl (ReError ''bad character range'')
                else (case class_items False cs' of
                        Inl e \<Rightarrow> Inl e
                      | Inr (is, n) \<Rightarrow> Inr (CRange c y # is, n + 3)))
             else (case class_items False cs of
                     Inl e \<Rightarrow> Inl e
                   | Inr (is, n) \<Rightarrow> Inr (CChar c # is, n + 1))
         | _ \<Rightarrow> (case class_items False cs of
                   Inl e \<Rightarrow> Inl e
                 | Inr (is, n) \<Rightarrow> Inr (CChar c # is, n + 1))))"

definition lex_class :: "string \<Rightarrow> error + (re \<times> nat)" where
  "lex_class cs =
     (case cs of
        c # cs' \<Rightarrow>
          if c = CHR ''^'' then
            (case class_items True cs' of
               Inl e \<Rightarrow> Inl e | Inr (is, n) \<Rightarrow> Inr (RSet True is, n + 1))
          else
            (case class_items True cs of
               Inl e \<Rightarrow> Inl e | Inr (is, n) \<Rightarrow> Inr (RSet False is, n))
      | [] \<Rightarrow> Inl (ReError ''unexpected end of regular expression''))"

definition brace_quant :: "string \<Rightarrow> (nat \<times> nat option \<times> nat) option" where
  "brace_quant cs =
     (let lo = takeWhile isdigit cs; r1 = dropWhile isdigit cs in
      case r1 of
        [] \<Rightarrow> None
      | x # r2 \<Rightarrow>
          if x = CHR ''}'' then
            (if lo = [] then None
             else Some (nat_of_digits 10 lo, Some (nat_of_digits 10 lo), length lo + 1))
          else if x = CHR '','' then
            (let hi = takeWhile isdigit r2; r3 = dropWhile isdigit r2 in
             case r3 of
               [] \<Rightarrow> None
             | y # _ \<Rightarrow>
                 if y = CHR ''}'' then
                   Some (if lo = [] then 0 else nat_of_digits 10 lo,
                         if hi = [] then None else Some (nat_of_digits 10 hi),
                         length lo + length hi + 2)
                 else None)
          else None)"

fun re_lex :: "nat \<Rightarrow> string \<Rightarrow> error + tok list" where
  "re_lex k [] = Inr []"
| "re_lex (Suc k) (c # cs) = re_lex k cs"
| "re_lex 0 (c # cs) =
     (if c = CHR 0x5C then
        (case cs of
           [] \<Rightarrow> Inl (ReError ''bogus escape (end of line)'')
         | d # _ \<Rightarrow> (case escape_atom d of
                       Inl e \<Rightarrow> Inl e
                     | Inr a \<Rightarrow> cons_ok (TAtom a) (re_lex 1 cs)))
      else if c = CHR ''['' then
        (case lex_class cs of
           Inl e \<Rightarrow> Inl e
         | Inr (a, n) \<Rightarrow> cons_ok (TAtom a) (re_lex n cs))
      else if c = CHR ''('' then
        (if prefix ''?:'' cs then cons_ok (TOpen False) (re_lex (Suc (Suc 0)) cs)
         else if prefix ''?'' cs then Inl (Unmodelled ''group extension'')
         else cons_ok (TOpen True) (re_lex 0 cs))
      else if c = CHR '')'' then cons_ok TClose (re_lex 0 cs)
      else if c = CHR ''|'' then cons_ok TBar (re_lex 0 cs)
      else if c = CHR ''*'' then cons_ok (TQuant 0 None) (re_lex 0 cs)
      else if c = CHR ''+'' then cons_ok (TQuant 1 None) (re_lex 0 cs)
      else if c = CHR ''?'' then cons_ok (TQuant 0 (Some 1)) (re_lex 0 cs)
      else if c = CHR ''{'' then
        (case brace_quant cs of
           None \<Rightarrow> cons_ok (TAtom (RChar c)) (re_lex 0 cs)
         | Some (lo, hi, n) \<Rightarrow> cons_ok (TQuant lo hi) (re_lex n cs))
      else if c = CHR ''.'' then cons_ok (TAtom RAny) (re_lex 0 cs)
      else if c = CHR ''^'' \<or> c = CHR ''$'' then Inl (Unmodelled ''anchor'')
      else cons_ok (TAtom (RChar c)) (re_lex 0 cs))"

fun mk_seq :: "re list \<Rightarrow> re" where
  "mk_seq [] = REps"
| "mk_seq [r] = r"
| "mk_seq (r # rs) = RSeq r (mk_seq rs)"

fun mk_alt :: "re list \<Rightarrow> re" where
  "mk_alt [] = REps"
| "mk_alt [r] = r"
| "mk_alt (r # rs) = RAlt r (mk_alt rs)"

type_synonym frame = "nat option \<times> re list \<times> re list"

fun parse_toks ::
  "frame list \<Rightarrow> re list \<Rightarrow> re list \<Rightarrow> bool \<Rightarrow> nat \<Rightarrow> tok list \<Rightarrow> error + (re \<times> nat)"
where
  "parse_toks st alts seq q n [] =
     (if st = [] then Inr (mk_alt (alts @ [mk_seq (rev seq)]), n)
      else Inl (ReError ''unbalanced parenthesis''))"
| "parse_toks st alts seq q n (TAtom a # ts) = parse_toks st alts (a # seq) True n ts"
| "parse_toks st alts seq q n (TQuant lo hi # ts) =
     (case seq of
        [] \<Rightarrow> Inl (ReError ''nothing to repeat'')
      | r # rs \<Rightarrow>
          if \<not> q then
            (if (lo, hi) = (0, Some 1) then Inl (Unmodelled ''non-greedy repeat'')
             else Inl (ReError ''multiple repeat''))
          else if (case hi of None \<Rightarrow> False | Some h \<Rightarrow> h < lo)
          then Inl (ReError ''bad repeat interval'')
          else parse_toks st alts (RRep lo hi r # rs) False n ts)"
| "parse_toks st alts seq q n (TOpen cap # ts) =
     (if cap then parse_toks ((Some (Suc n), alts, seq) # st) [] [] False (Suc n) ts
      else parse_toks ((None, alts, seq) # st) [] [] False n ts)"
| "parse_toks st alts seq q n (TBar # ts) =
     parse_toks st (alts @ [mk_seq (rev seq)]) [] False n ts"
| "parse_toks st alts seq q n (TClose # ts) =
     (case st of
        [] \<Rightarrow> Inl (ReError ''unbalanced parenthesis'')
      | (g, alts', seq') # st' \<Rightarrow>
          (let r = mk_alt (alts @ [mk_seq (rev seq)]);
               r' = (case g of Some i \<Rightarrow> RGroup i r | None \<Rightarrow> r)
           in parse_toks st' alts' (r' # seq') True n ts))"

definition re_compile :: "string \<Rightarrow> error + (re \<times> nat)" where
  "re_compile p =
     (case re_lex 0 p of Inl e \<Rightarrow> Inl e | Inr ts \<Rightarrow> parse_toks [] [] [] False 0 ts)"

abbreviation (input) BS :: char where "BS \<equiv> CHR 0x5C"

text \<open>
  Searching, iterating and substituting, as \<^verbatim>\<open>_sre\<close> does: the first way of matching at
  the leftmost position wins; after an empty match the scan moves on by one character;
  \<^verbatim>\<open>re.sub\<close> does not replace an empty match next to the previous match. A match is
  its start, its end and its groups.
\<close>

definition first_match :: "re \<Rightarrow> string \<Rightarrow> (nat \<times> caps) option" where
  "first_match r s =
     (case rmatch r s [] of [] \<Rightarrow> None | (s', c) # _ \<Rightarrow> Some (length s - length s', c))"

type_synonym match = "nat \<times> nat \<times> caps"

fun search_from :: "re \<Rightarrow> nat \<Rightarrow> string \<Rightarrow> match option" where
  "search_from r pos s =
     (case first_match r s of
        Some (n, c) \<Rightarrow> Some (pos, pos + n, c)
      | None \<Rightarrow> (case s of [] \<Rightarrow> None | x # xs \<Rightarrow> search_from r (Suc pos) xs))"

definition groups :: "nat \<Rightarrow> match \<Rightarrow> string option list" where
  "groups ng m = map (\<lambda>i. map_of (snd (snd m)) i) [1..<Suc ng]"

definition re_search :: "string \<Rightarrow> string \<Rightarrow> nat \<Rightarrow> error + (string option list) option" where
  "re_search pattern string flags =
     (if flags \<noteq> 0 then Inl (Unmodelled ''flags'')
      else case re_compile pattern of
             Inl e \<Rightarrow> Inl e
           | Inr (r, ng) \<Rightarrow> Inr (map_option (groups ng) (search_from r 0 string)))"

fun finditer_from :: "re \<Rightarrow> nat \<Rightarrow> nat \<Rightarrow> string \<Rightarrow> match list" where
  "finditer_from r pos (Suc k) [] = []"
| "finditer_from r pos (Suc k) (x # xs) = finditer_from r (Suc pos) k xs"
| "finditer_from r pos 0 s =
     (case first_match r s of
        None \<Rightarrow> (case s of [] \<Rightarrow> [] | x # xs \<Rightarrow> finditer_from r (Suc pos) 0 xs)
      | Some (n, c) \<Rightarrow>
          (pos, pos + n, c) #
          (case s of [] \<Rightarrow> [] | x # xs \<Rightarrow> finditer_from r (Suc pos) (n - 1) xs))"

definition re_finditer :: "string \<Rightarrow> string \<Rightarrow> error + match list" where
  "re_finditer pattern string =
     (case re_compile pattern of
        Inl e \<Rightarrow> Inl e
      | Inr (r, ng) \<Rightarrow> Inr (finditer_from r 0 0 string))"

text \<open>
  The replacement string of \<^verbatim>\<open>re.sub\<close>: \<^verbatim>\<open>\1\<close> to \<^verbatim>\<open>\9\<close> stand for a group, the
  escapes of Python's table for a character, and any other backslash stays as it is.
\<close>

fun expand_template :: "nat \<Rightarrow> caps \<Rightarrow> nat \<Rightarrow> string \<Rightarrow> error + string" where
  "expand_template ng c k [] = Inr []"
| "expand_template ng c (Suc k) (x # xs) = expand_template ng c k xs"
| "expand_template ng c 0 (x # xs) =
     (if x = BS then
        (case xs of
           [] \<Rightarrow> Inr [x]
         | d # _ \<Rightarrow>
             if d = CHR ''g'' \<or> d = CHR ''0'' then Inl (Unmodelled ''template escape'')
             else if isdigit d then
               (if (case tl xs of e # _ \<Rightarrow> isdigit e | [] \<Rightarrow> False)
                then Inl (Unmodelled ''template escape'')
                else if ng < the (digit_val d) then Inl (ReError ''invalid group reference'')
                else (case map_of c (the (digit_val d)) of
                        None \<Rightarrow> Inl (ReError ''unmatched group'')
                      | Some g \<Rightarrow> map_sum id ((@) g) (expand_template ng c 1 xs)))
             else if d = CHR ''n'' then cons_ok (CHR 0x0A) (expand_template ng c 1 xs)
             else if d = CHR ''t'' then cons_ok (CHR 0x09) (expand_template ng c 1 xs)
             else if d = CHR ''r'' then cons_ok (CHR 0x0D) (expand_template ng c 1 xs)
             else if d = CHR ''f'' then cons_ok (CHR 0x0C) (expand_template ng c 1 xs)
             else if d = CHR ''v'' then cons_ok (CHR 0x0B) (expand_template ng c 1 xs)
             else if d = CHR ''a'' then cons_ok (CHR 0x07) (expand_template ng c 1 xs)
             else if d = CHR ''b'' then cons_ok (CHR 0x08) (expand_template ng c 1 xs)
             else if d = BS then cons_ok BS (expand_template ng c 1 xs)
             else cons_ok x (expand_template ng c 0 xs))
      else cons_ok x (expand_template ng c 0 xs))"

fun sub_from :: "re \<Rightarrow> nat \<Rightarrow> string \<Rightarrow> bool \<Rightarrow> nat \<Rightarrow> string \<Rightarrow> error + string" where
  "sub_from r ng repl adj (Suc k) [] = Inr []"
| "sub_from r ng repl adj (Suc k) (x # xs) = sub_from r ng repl adj k xs"
| "sub_from r ng repl adj 0 s =
     (case first_match r s of
        None \<Rightarrow> (case s of [] \<Rightarrow> Inr [] | x # xs \<Rightarrow> cons_ok x (sub_from r ng repl False 0 xs))
      | Some (n, c) \<Rightarrow>
          if n = 0 \<and> adj then
            (case s of [] \<Rightarrow> Inr [] | x # xs \<Rightarrow> cons_ok x (sub_from r ng repl False 0 xs))
          else
            (case expand_template ng c 0 repl of
               Inl e \<Rightarrow> Inl e
             | Inr out \<Rightarrow>
                 map_sum id ((@) out)
                   (case s of
                      [] \<Rightarrow> Inr []
                    | x # xs \<Rightarrow>
                        if n = 0 then cons_ok x (sub_from r ng repl False 0 xs)
                        else sub_from r ng repl True (n - 1) xs)))"

definition re_sub :: "string \<Rightarrow> string \<Rightarrow> string \<Rightarrow> error + string" where
  "re_sub pattern repl string =
     (case re_compile pattern of
        Inl e \<Rightarrow> Inl e
      | Inr (r, ng) \<Rightarrow> sub_from r ng repl False 0 string)"

section \<open>Python values and conversions\<close>

text \<open>
  The values that travel through the instrument: \<^verbatim>\<open>None\<close>, byte strings, integers
  (unbounded in Python) and floats. A float is kept as the rational number that its
  literal denotes; Python keeps the binary64 number nearest to it, which is the same
  number whenever the literal denotes a binary64 number, as \<open>3.5\<close> does.
\<close>

datatype pyval = PNone | PStr string | PInt int | PFloat rat

text \<open>
  \<^verbatim>\<open>int(x, base)\<close> on a string, as Python 2.7 reads it: whitespace around the
  literal, one optional sign, then with base 0 the base is taken from the prefix
  (\<^verbatim>\<open>0x\<close> 16, \<^verbatim>\<open>0o\<close> 8, \<^verbatim>\<open>0b\<close> 2, any other leading \<^verbatim>\<open>0\<close> 8, otherwise 10),
  and with base 16, 8 or 2 the matching prefix may be there; at least one digit of
  the base, and nothing else.
\<close>

definition int_prefix :: "nat \<Rightarrow> string \<Rightarrow> nat \<times> string" where
  "int_prefix base s =
     (case s of
        c # d # rest \<Rightarrow>
          if c \<noteq> CHR ''0'' then (if base = 0 then 10 else base, s)
          else if (d = CHR ''x'' \<or> d = CHR ''X'') \<and> (base = 0 \<or> base = 16) then (16, rest)
          else if (d = CHR ''o'' \<or> d = CHR ''O'') \<and> (base = 0 \<or> base = 8) then (8, rest)
          else if (d = CHR ''b'' \<or> d = CHR ''B'') \<and> (base = 0 \<or> base = 2) then (2, rest)
          else (if base = 0 then 8 else base, s)
      | _ \<Rightarrow> (if base = 0 then 10 else base, s))"

definition digits_of :: "nat \<Rightarrow> string \<Rightarrow> bool" where
  "digits_of base ds =
     (ds \<noteq> [] \<and> (\<forall>d\<in>set ds. case digit_val d of None \<Rightarrow> False | Some v \<Rightarrow> v < base))"

definition split_sign :: "string \<Rightarrow> bool \<times> string" where
  "split_sign s =
     (case s of
        [] \<Rightarrow> (False, s)
      | c # cs \<Rightarrow> if c = CHR ''-'' then (True, cs) else if c = CHR ''+'' then (False, cs)
                  else (False, s))"

definition py_int :: "nat \<Rightarrow> string \<Rightarrow> error + int" where
  "py_int base x =
     (if base \<noteq> 0 \<and> (base < 2 \<or> 36 < base)
      then Inl (ValueError ''int() base must be >= 2 and <= 36'')
      else
        (case split_sign (strip x) of (neg, s1) \<Rightarrow>
         case int_prefix base s1 of (b, ds) \<Rightarrow>
           if digits_of b ds
           then Inr (if neg then - int (nat_of_digits b ds) else int (nat_of_digits b ds))
           else Inl (ValueError (''invalid literal for int(): '' @ x))))"

text \<open>
  \<^verbatim>\<open>float(x)\<close> on a decimal literal: sign, digits with an optional fraction or a
  fraction alone, optional exponent. \<^verbatim>\<open>inf\<close> and \<^verbatim>\<open>nan\<close> are not modelled.
\<close>

definition span_digits :: "string \<Rightarrow> string \<times> string" where
  "span_digits s = (takeWhile isdigit s, dropWhile isdigit s)"

definition float_fraction :: "string \<Rightarrow> string \<times> string" where
  "float_fraction r =
     (case r of
        [] \<Rightarrow> ([], r)
      | c # cs \<Rightarrow> if c = CHR ''.'' then span_digits cs else ([], r))"

definition float_exponent :: "string \<Rightarrow> int option" where
  "float_exponent r =
     (case r of
        [] \<Rightarrow> Some 0
      | c # cs \<Rightarrow>
          if c = CHR ''e'' \<or> c = CHR ''E'' then
            (case split_sign cs of (eneg, es) \<Rightarrow>
               if es \<noteq> [] \<and> (\<forall>d\<in>set es. isdigit d)
               then Some (if eneg then - int (nat_of_digits 10 es) else int (nat_of_digits 10 es))
               else None)
          else None)"

definition scale10 :: "rat \<Rightarrow> int \<Rightarrow> rat" where
  "scale10 m e = (if e < 0 then m / 10 ^ nat (- e) else m * 10 ^ nat e)"

definition py_float :: "string \<Rightarrow> error + rat" where
  "py_float x =
     (case split_sign (strip x) of (neg, s1) \<Rightarrow>
      case span_digits s1 of (ip, r1) \<Rightarrow>
      case float_fraction r1 of (fp, r2) \<Rightarrow>
        if ip @ fp \<noteq> [] \<and> float_exponent r2 \<noteq> None then
          (let v = scale10 (of_nat (nat_of_digits 10 (ip @ fp)))
                     (the (float_exponent r2) - int (length fp))
           in Inr (if neg then - v else v))
        else if (case s1 of c # _ \<Rightarrow> c \<in> set ''iInN'' | [] \<Rightarrow> False)
        then Inl (Unmodelled ''float() of inf or nan'')
        else Inl (ValueError (''could not convert string to float: '' @ x)))"

text \<open>\<^verbatim>\<open>str(v)\<close>, for the values whose text is plain.\<close>

function digits10 :: "nat \<Rightarrow> string" where
  "digits10 n =
     (if n < 10 then [''0123456789'' ! n]
      else digits10 (n div 10) @ [''0123456789'' ! (n mod 10)])"
  by pat_completeness auto
termination
  by (relation "measure id") auto

definition py_str :: "pyval \<Rightarrow> error + string" where
  "py_str v =
     (case v of
        PNone \<Rightarrow> Inr ''None''
      | PStr s \<Rightarrow> Inr s
      | PInt i \<Rightarrow> Inr (if i < 0 then CHR ''-'' # digits10 (nat (- i)) else digits10 (nat i))
      | PFloat r \<Rightarrow> Inl (Unmodelled ''str() of a float''))"

section \<open>Parsed queries\<close>

text \<open>
  The parse functions of the placeholder table: \<^verbatim>\<open>noop\<close>, \<^verbatim>\<open>int\<close>, \<^verbatim>\<open>float\<close> and
  \<^verbatim>\<open>lambda x: int(x, base)\<close>; \<open>Custom\<close> is a function that the caller supplies. A parse
  function is applied to a group of the match, which is \<^verbatim>\<open>None\<close> when the group did not
  take part in it.
\<close>

datatype parser =
    Noop
  | ToInt
  | ToFloat
  | ToIntBase nat
  | Custom "string option \<Rightarrow> error + pyval"

fun apply_parser :: "parser \<Rightarrow> string option \<Rightarrow> error + pyval" where
  "apply_parser Noop None = Inr PNone"
| "apply_parser Noop (Some g) = Inr (PStr g)"
| "apply_parser ToInt None = Inl (TypeError ''int() argument must be a string or a number'')"
| "apply_parser ToInt (Some g) = map_sum id PInt (py_int 10 g)"
| "apply_parser ToFloat None = Inl (TypeError ''float() argument must be a string or a number'')"
| "apply_parser ToFloat (Some g) = map_sum id PFloat (py_float g)"
| "apply_parser (ToIntBase b) None =
     Inl (TypeError ''int() can't convert non-string with explicit base'')"
| "apply_parser (ToIntBase b) (Some g) = map_sum id PInt (py_int b g)"
| "apply_parser (Custom f) g = f g"

text \<open>The table \<^verbatim>\<open>placeholders\<close>: pattern of the placeholder, its regular expression, its parse function.\<close>

definition placeholders :: "(string \<times> string \<times> parser) list" where
  "placeholders =
     [(''%c'', ''.'', Noop),
      (''%('' @ BS # ''d+)c'', ''.{'' @ BS # ''1}'', Noop),
      (''%d'', ''[-+]?'' @ BS # ''d+'', ToInt),
      (''%[eEfg]'',
         ''[-+]?(?:'' @ BS # ''d+(?:'' @ BS # ''.'' @ BS # ''d*)?|'' @ BS # ''.'' @ BS
           # ''d+)(?:[eE][-+]?'' @ BS # ''d+)?'', ToFloat),
      (''%i'', ''[-+]?(?:0[xX]['' @ BS # ''dA-Fa-f]+|0[0-7]*|'' @ BS # ''d+)'', ToIntBase 0),
      (''%o'', ''[-+]?[0-7]+'', ToIntBase 8),
      (''%s'', BS # ''S+'', Noop),
      (''%u'', BS # ''d+'', ToInt),
      (''%[xX]'', ''[-+]?(?:0[xX])?['' @ BS # ''dA-Fa-f]+'', ToIntBase 16)]"

text \<open>
  The loop over the table: substitute in the working copy \<^verbatim>\<open>response_regex\<close>, and
  record the placeholders found in the original \<^verbatim>\<open>response_string\<close> with their start.
\<close>

fun compile_loop ::
  "string \<Rightarrow> (string \<times> string \<times> parser) list \<Rightarrow> string \<Rightarrow> (parser \<times> nat) list
     \<Rightarrow> error + (string \<times> (parser \<times> nat) list)"
where
  "compile_loop response_string [] response_regex matched_placeholders =
     Inr (response_regex, matched_placeholders)"
| "compile_loop response_string ((placeholder, regex, parse_fun) # rest)
       response_regex matched_placeholders =
     (case re_sub placeholder (''('' @ regex @ '')'') response_regex of
        Inl e \<Rightarrow> Inl e
      | Inr response_regex' \<Rightarrow>
     (case re_finditer placeholder response_string of
        Inl e \<Rightarrow> Inl e
      | Inr ms \<Rightarrow>
          compile_loop response_string rest response_regex'
            (matched_placeholders @ map (\<lambda>m. (parse_fun, fst m)) ms)))"

text \<open>
  The argument \<^verbatim>\<open>parse_function\<close>: \<^verbatim>\<open>None\<close>, one function, or a list of functions.
  The result: one value, or a list of values.
\<close>

datatype parse_arg = One parser | Many "parser list"

datatype parsed = Scalar pyval | Sequence "pyval list"

text \<open>
  The list comprehension over \<^verbatim>\<open>zip(parse_function, res.groups())\<close>: the first parse
  function that raises ends it.
\<close>

fun apply_all :: "(parser \<times> string option) list \<Rightarrow> error + pyval list" where
  "apply_all [] = Inr []"
| "apply_all ((f, g) # fgs) =
     (case apply_parser f g of
        Inl e \<Rightarrow> Inl e
      | Inr v \<Rightarrow> (case apply_all fgs of Inl e \<Rightarrow> Inl e | Inr vs \<Rightarrow> Inr (v # vs)))"

definition not_matched_message :: "string \<Rightarrow> string \<Rightarrow> string \<Rightarrow> string \<Rightarrow> string" where
  "not_matched_message query_string reply response_string response_regex =
     ''Stage response to '' @ [CHR 0x27] @ query_string @ [CHR 0x27] @ '' ('' @ [CHR 0x27]
       @ reply @ [CHR 0x27] @ '') wasn'' @ [CHR 0x27] @ ''t matched by /'' @ response_string
       @ ''/ (generated regex /'' @ response_regex @ ''/''"

definition not_parsed_message :: "string \<Rightarrow> string \<Rightarrow> string" where
  "not_parsed_message query_string reply =
     ''Stage response to '' @ query_string @ '' ('' @ [CHR 0x27] @ reply @ [CHR 0x27]
       @ '') couldn'' @ [CHR 0x27] @ ''t be parsed by the supplied function''"

definition parse_reply ::
  "string \<Rightarrow> string \<Rightarrow> string \<Rightarrow> string \<Rightarrow> nat \<Rightarrow> parser list \<Rightarrow> error + parsed"
where
  "parse_reply query_string response_string response_regex reply re_flags parse_function =
     (case re_search response_regex reply re_flags of
        Inl e \<Rightarrow> Inl e
      | Inr None \<Rightarrow>
          Inl (ValueError (not_matched_message query_string reply response_string response_regex))
      | Inr (Some gs) \<Rightarrow>
          (case apply_all (zip parse_function gs) of
             Inl (ValueError m) \<Rightarrow> Inl (ValueError (not_parsed_message query_string reply))
           | Inl e \<Rightarrow> Inl e
           | Inr parsed_result \<Rightarrow>
               if length parsed_result = 1 then Inr (Scalar (parsed_result ! 0))
               else Inr (Sequence parsed_result)))"

definition parsed_query ::
  "'st bus \<Rightarrow> string \<Rightarrow> string \<Rightarrow> nat \<Rightarrow> parse_arg option
     \<Rightarrow> bool \<Rightarrow> string option \<Rightarrow> timeout \<Rightarrow> 'st \<Rightarrow> ((error + parsed) \<times> 'st) option"
where
  "parsed_query b query_string response_string re_flags parse_function
       multiline term_line tmo s =
     (case compile_loop response_string placeholders response_string [] of
        Inl e \<Rightarrow> Some (Inl e, s)
      | Inr (response_regex, matched_placeholders) \<Rightarrow>
     (let parse_function =
            (case parse_function of
               None \<Rightarrow> Many (map fst (sort_key snd matched_placeholders))
             | Some pf \<Rightarrow> pf);
          parse_function = (case parse_function of One f \<Rightarrow> [f] | Many fs \<Rightarrow> fs)
      in case query b query_string multiline term_line tmo s of
           None \<Rightarrow> None
         | Some (Inl e, s') \<Rightarrow> Some (Inl e, s')
         | Some (Inr reply, s') \<Rightarrow>
             Some (parse_reply query_string response_string response_regex reply re_flags
                     parse_function, s')))"

definition int_query ::
  "'st bus \<Rightarrow> string \<Rightarrow> bool \<Rightarrow> string option \<Rightarrow> timeout \<Rightarrow> 'st
     \<Rightarrow> ((error + parsed) \<times> 'st) option"
where
  "int_query b query_string multiline term_line tmo s =
     parsed_query b query_string ''%d'' 0 None multiline term_line tmo s"

definition float_query ::
  "'st bus \<Rightarrow> string \<Rightarrow> bool \<Rightarrow> string option \<Rightarrow> timeout \<Rightarrow> 'st
     \<Rightarrow> ((error + parsed) \<times> 'st) option"
where
  "float_query b query_string multiline term_line tmo s =
     parsed_query b query_string ''%f'' 0 None multiline term_line tmo s"

section \<open>Bound properties\<close>

text \<open>
  The two ways of substituting values into a command, \<^verbatim>\<open>message.format(...)\<close> and
  \<^verbatim>\<open>message % ...\<close>, for the fields that name their argument by position
  (\<^verbatim>\<open>{0}\<close>, \<^verbatim>\<open>{1}\<close>, with \<^verbatim>\<open>{{\<close> and \<^verbatim>\<open>}}\<close> for braces) and for the
  conversions \<^verbatim>\<open>%s\<close>, \<^verbatim>\<open>%d\<close> and \<^verbatim>\<open>%%\<close>. Other fields and conversions are
  \<open>Unmodelled\<close>.
\<close>

fun py_format :: "pyval list \<Rightarrow> nat \<Rightarrow> string \<Rightarrow> error + string" where
  "py_format args k [] = Inr []"
| "py_format args (Suc k) (c # cs) = py_format args k cs"
| "py_format args 0 (c # cs) =
     (if c = CHR ''{'' then
        (case cs of
           [] \<Rightarrow> Inl (ValueError ''Single { encountered in format string'')
         | d # _ \<Rightarrow>
             if d = CHR ''{'' then cons_ok c (py_format args 1 cs)
             else
               (let ds = takeWhile isdigit cs; r = dropWhile isdigit cs in
                if ds \<noteq> [] \<and> (case r of x # _ \<Rightarrow> x = CHR ''}'' | [] \<Rightarrow> False) then
                  (if nat_of_digits 10 ds < length args then
                     (case py_str (args ! nat_of_digits 10 ds) of
                        Inl e \<Rightarrow> Inl e
                      | Inr t \<Rightarrow> map_sum id ((@) t) (py_format args (Suc (length ds)) cs))
                   else Inl (IndexError ''tuple index out of range''))
                else Inl (Unmodelled ''replacement field'')))
      else if c = CHR ''}'' then
        (case cs of
           [] \<Rightarrow> Inl (ValueError ''Single } encountered in format string'')
         | d # _ \<Rightarrow>
             if d = CHR ''}'' then cons_ok c (py_format args 1 cs)
             else Inl (ValueError ''Single } encountered in format string''))
      else cons_ok c (py_format args 0 cs))"

fun py_percent :: "pyval list \<Rightarrow> nat \<Rightarrow> string \<Rightarrow> error + string" where
  "py_percent args k [] =
     (if args = [] then Inr []
      else Inl (TypeError ''not all arguments converted during string formatting''))"
| "py_percent args (Suc k) (c # cs) = py_percent args k cs"
| "py_percent args 0 (c # cs) =
     (if c = CHR ''%'' then
        (case cs of
           [] \<Rightarrow> Inl (ValueError ''incomplete format'')
         | d # _ \<Rightarrow>
             if d = CHR ''%'' then cons_ok c (py_percent args 1 cs)
             else if d = CHR ''s'' \<or> d = CHR ''d'' then
               (case args of
                  [] \<Rightarrow> Inl (TypeError ''not enough arguments for format string'')
                | a # as \<Rightarrow>
                    if d = CHR ''d'' \<and> (case a of PInt i \<Rightarrow> False | _ \<Rightarrow> True) then
                      (case a of
                         PFloat r \<Rightarrow> Inl (Unmodelled ''%d of a float'')
                       | _ \<Rightarrow> Inl (TypeError ''%d format: a number is required''))
                    else
                      (case py_str a of
                         Inl e \<Rightarrow> Inl e
                       | Inr t \<Rightarrow> map_sum id ((@) t) (py_percent as 1 cs)))
             else Inl (Unmodelled ''conversion''))
      else cons_ok c (py_percent args 0 cs))"

text \<open>
  The lines that \<^verbatim>\<open>__get__\<close> and \<^verbatim>\<open>__set__\<close> share: a message that contains \<^verbatim>\<open>{0\<close>
  goes through \<^verbatim>\<open>format\<close>, otherwise one that contains \<^verbatim>\<open>%\<close> goes through \<^verbatim>\<open>%\<close>,
  otherwise it stays as it is.
\<close>

definition format_message :: "string \<Rightarrow> pyval list \<Rightarrow> error + string" where
  "format_message message args =
     (if sublist ''{0'' message then py_format args 0 message
      else if sublist ''%'' message then py_percent args 0 message
      else Inr message)"

text \<open>
  A \<^verbatim>\<open>queried_property\<close> holds its configuration only. \<open>'obj\<close> is the object that the
  property is read from or written to, \<open>'w\<close> the state that an access works on. The
  \<^verbatim>\<open>print\<close> statements of \<^verbatim>\<open>__set__\<close> are left out.
\<close>

record ('obj, 'w) queried_property =
  dtype :: string
  get_cmd :: "string option"
  set_cmd :: "string option"
  fvalidate :: "('obj \<Rightarrow> pyval \<Rightarrow> 'w \<Rightarrow> (error + unit) \<times> 'w) option"
  fdel :: "('obj \<Rightarrow> 'w \<Rightarrow> (error + unit) \<times> 'w) option"

text \<open>What \<^verbatim>\<open>__get__\<close> returns: the property itself when it is read on the class, or a value.\<close>

datatype got = Self | Value parsed

text \<open>
  The choice of \<^verbatim>\<open>getter\<close> by \<^verbatim>\<open>dtype\<close>, applied to the command. \<^verbatim>\<open>query\<close> returns the
  reply as a string.
\<close>

definition getter ::
  "string \<Rightarrow> 'st bus \<Rightarrow> string \<Rightarrow> 'st \<Rightarrow> ((error + parsed) \<times> 'st) option"
where
  "getter dt b cmd s =
     (if dt = ''float'' then float_query b cmd False None None s
      else if dt = ''int'' then int_query b cmd False None None s
      else map_option (\<lambda>(r, s'). (map_sum id (\<lambda>reply. Scalar (PStr reply)) r, s'))
             (query b cmd False None None s))"

definition qp_get ::
  "('st bus, 'st) queried_property \<Rightarrow> 'st bus option \<Rightarrow> 'st \<Rightarrow> ((error + got) \<times> 'st) option"
where
  "qp_get p obj s =
     (case obj of
        None \<Rightarrow> Some (Inr Self, s)
      | Some b \<Rightarrow>
          (case get_cmd p of
             None \<Rightarrow> Some (Inl (AttributeError ''unreadable attribute''), s)
           | Some cmd \<Rightarrow>
               map_option (\<lambda>(r, s'). (map_sum id Value r, s')) (getter (dtype p) b cmd s)))"

definition qp_set ::
  "('st bus, 'st) queried_property \<Rightarrow> 'st bus \<Rightarrow> pyval \<Rightarrow> 'st \<Rightarrow> (error + unit) \<times> 'st"
where
  "qp_set p obj val s =
     (case set_cmd p of
        None \<Rightarrow> (Inl (AttributeError ''can't set attribute''), s)
      | Some cmd \<Rightarrow>
          (case (case fvalidate p of None \<Rightarrow> (Inr (), s) | Some v \<Rightarrow> v obj val s) of
             (Inl e, s1) \<Rightarrow> (Inl e, s1)
           | (Inr u, s1) \<Rightarrow>
               (case format_message cmd [val] of
                  Inl e \<Rightarrow> (Inl e, s1)
                | Inr message \<Rightarrow> write_msg obj message s1)))"

definition qp_delete ::
  "('obj, 'w) queried_property \<Rightarrow> 'obj \<Rightarrow> 'w \<Rightarrow> (error + unit) \<times> 'w"
where
  "qp_delete p obj s =
     (case fdel p of
        None \<Rightarrow> (Inl (AttributeError ''can't delete attribute''), s)
      | Some f \<Rightarrow> f obj s)"





subsection \<open>Names for the patterns of the two typed queries\<close>





subsection \<open>What the documentation says about reading\<close>

text \<open>
  The lines that a multi-line read consumes according to its description: one line after
  the other up to and including the first line that contains the terminator or is
  empty. A transport that has run out of lines returns the empty string.
\<close>

fun lines_read :: "string \<Rightarrow> string list \<Rightarrow> string list" where
  "lines_read t [] = [[]]"
| "lines_read t (l # ls) = (if sublist t l \<or> l = [] then [l] else l # lines_read t ls)"


text \<open>Removing the single trailing line terminator, and nothing else.\<close>

definition chomp :: "string \<Rightarrow> string" where
  "chomp l = (if l \<noteq> [] \<and> last l = CHR 0x0A then butlast l else l)"

section \<open>Properties\<close>






subsection \<open>Multi-line reads\<close>

lemma lines_read_nonempty: "lines_read t ps \<noteq> []"
  by (induction ps) auto

lemma read_loop_scripted:
  "\<not> sublist t last_line \<Longrightarrow> last_line \<noteq> [] \<Longrightarrow>
   read_loop (scripted tline) tmo t response last_line s =
     Some (Inr (response @ concat (lines_read t (pending s))),
           s\<lparr>pending := drop (length (lines_read t (pending s))) (pending s),
             reads := reads s + length (lines_read t (pending s))\<rparr>)"
proof (induction "pending s" arbitrary: s response last_line)
  case Nil
  then show ?case
    by (subst read_loop.simps, subst read_loop.simps) (simp add: scripted_def)
next
  case (Cons l ls)
  let ?s' = "s\<lparr>pending := ls, reads := Suc (reads s)\<rparr>"
  have rd: "readline (scripted tline) tmo s = (Inr l, ?s')"
    using Cons.hyps(2) by (simp add: scripted_def split: list.splits) (metis list.inject list.simps(3))
  show ?case
  proof (cases "sublist t l \<or> l = []")
    case True
    then show ?thesis using Cons.prems Cons.hyps(2)[symmetric] rd
      by (subst read_loop.simps, subst read_loop.simps) auto
  next
    case False
    have "ls = pending ?s'" by simp
    from Cons.hyps(1)[OF this, of l "response @ l"] False
    show ?thesis using Cons.prems Cons.hyps(2)[symmetric] rd
      by (subst read_loop.simps) auto
  qed
qed


lemma read_multiline_scripted:
  assumes "\<not> sublist t ''dummy''"
  shows "read_multiline (scripted tline) (Some t) tmo s =
     Some (Inr (concat (lines_read t (pending s))),
           s\<lparr>pending := drop (length (lines_read t (pending s))) (pending s),
             reads := reads s + length (lines_read t (pending s))\<rparr>)"
  using assms by (simp add: read_multiline_def read_loop_scripted)

lemma read_multiline_END:
  "read_multiline (scripted None) (Some ''END'') None
      \<lparr>pending = [''foo\<newline>'', ''bar\<newline>'', ''END\<newline>''], reads = 0, written = [], flushes = 0\<rparr>
    = Some (Inr ''foo\<newline>bar\<newline>END\<newline>'',
            \<lparr>pending = [], reads = 3, written = [], flushes = 0\<rparr>)"
  by (simp add: read_multiline_def read_loop_scripted sublist_code)

text \<open>
  Claim C2. \<^verbatim>\<open>read_multiline\<close> is meant to read line after line and to stop at the first
  line that contains the terminator or is empty. For the lines \<open>foo\<close>, \<open>bar\<close>, \<open>END\<close> and
  the terminator \<open>END\<close> it does (\<open>read_multiline_END\<close>: three reads), and it does for
  every terminator that is not part of the word \<open>dummy\<close> (\<open>read_multiline_scripted\<close>).
  The loop variable \<^verbatim>\<open>last_line\<close> starts as \<^verbatim>\<open>"dummy"\<close>, though, and the loop test
  looks at it before anything is read: with the terminator \<open>um\<close> and a transport holding
  the line \<open>sum\<close>, nothing is read and the empty string is returned, where the
  description asks for one read and the result \<open>sum\<close>.
\<close>

theorem read_multiline_sentinel_skips_read:
  "read_multiline (scripted None) (Some ''um'') None
      \<lparr>pending = [''sum\<newline>''], reads = 0, written = [], flushes = 0\<rparr>
    = Some (Inr [], \<lparr>pending = [''sum\<newline>''], reads = 0, written = [], flushes = 0\<rparr>)
   \<and> lines_read ''um'' [''sum\<newline>''] = [''sum\<newline>'']"
  by (simp add: read_multiline_def read_loop.simps sublist_code)

text \<open>
  Claim C10. \<^verbatim>\<open>last_line\<close> starts as \<^verbatim>\<open>"dummy"\<close>. When the terminator in force (the
  argument, or the instrument's \<^verbatim>\<open>termination_line\<close> when the argument is \<^verbatim>\<open>None\<close>) is a
  substring of \<open>dummy\<close>, the empty string included, \<^verbatim>\<open>read_multiline\<close> returns the empty
  string and leaves the instrument as it was: nothing is read. For every other
  terminator the first thing that happens is a \<^verbatim>\<open>readline\<close> on the instrument; on the
  scripted transport the call returns with the read counter increased.
\<close>

theorem read_multiline_dummy:
  assumes "(case term_line of None \<Rightarrow> termination_line b | Some t' \<Rightarrow> Some t') = Some t"
  shows "(sublist t ''dummy'' \<longrightarrow> read_multiline b term_line tmo s = Some (Inr [], s))
       \<and> (\<not> sublist t ''dummy'' \<longrightarrow>
            read_multiline b term_line tmo s =
              (case readline b tmo s of
                 (Inl e, s') \<Rightarrow> Some (Inl e, s')
               | (Inr l, s') \<Rightarrow> read_loop b tmo t l l s'))
       \<and> (\<not> sublist t ''dummy'' \<longrightarrow>
            (\<exists>r sc'. read_multiline (scripted tline) (Some t) tmo sc = Some (Inr r, sc')
                     \<and> reads sc < reads sc'))"
proof (intro conjI impI)
  assume "sublist t ''dummy''"
  then show "read_multiline b term_line tmo s = Some (Inr [], s)"
    using assms by (simp add: read_multiline_def read_loop.simps)
next
  assume "\<not> sublist t ''dummy''"
  then show "read_multiline b term_line tmo s =
              (case readline b tmo s of
                 (Inl e, s') \<Rightarrow> Some (Inl e, s')
               | (Inr l, s') \<Rightarrow> read_loop b tmo t l l s')"
    using assms
    by (subst read_multiline_def, simp, subst read_loop.simps, simp split: prod.splits sum.splits)
next
  assume "\<not> sublist t ''dummy''"
  then show "\<exists>r sc'. read_multiline (scripted tline) (Some t) tmo sc = Some (Inr r, sc')
                     \<and> reads sc < reads sc'"
    using lines_read_nonempty[of t "pending sc"]
    by (simp add: read_multiline_def read_loop_scripted)
qed

theorem read_multiline_dummy_witness:
  "read_multiline (scripted (Some ''dum'')) None None
      \<lparr>pending = [''dum\<newline>''], reads = 0, written = [], flushes = 0\<rparr>
    = Some (Inr [], \<lparr>pending = [''dum\<newline>''], reads = 0, written = [], flushes = 0\<rparr>)
   \<and> read_multiline (scripted None) (Some ''END'') None
      \<lparr>pending = [''END\<newline>''], reads = 0, written = [], flushes = 0\<rparr>
    = read_loop (scripted None) None ''END'' ''END\<newline>'' ''END\<newline>''
        \<lparr>pending = [], reads = 1, written = [], flushes = 0\<rparr>"
proof -
  have d: "sublist ''dum'' ''dummy''" by (simp add: sublist_code)
  have e: "\<not> sublist ''END'' ''dummy''" by (simp add: sublist_code)
  have h1: "(case None of None \<Rightarrow> termination_line (scripted (Some ''dum'')) | Some t' \<Rightarrow> Some t')
            = Some ''dum''"
    by (simp add: scripted_def)
  have h2: "(case Some ''END'' of None \<Rightarrow> termination_line (scripted None) | Some t' \<Rightarrow> Some t')
            = Some ''END''"
    by simp
  show ?thesis
    using read_multiline_dummy[OF h1, of None
            "\<lparr>pending = [''dum\<newline>''], reads = 0, written = [], flushes = 0\<rparr>"] d
          read_multiline_dummy[OF h2, of None
            "\<lparr>pending = [''END\<newline>''], reads = 0, written = [], flushes = 0\<rparr>"] e
    by (simp add: scripted_def)
qed

subsection \<open>Single-line queries\<close>

lemma strip_decomp: "\<exists>pre post. l = pre @ strip l @ post \<and> (\<forall>c\<in>set pre. isspace c) \<and> (\<forall>c\<in>set post. isspace c)"
proof -
  let ?m = "dropWhile isspace l"
  have 1: "l = takeWhile isspace l @ ?m" by simp
  have 2: "rev ?m = takeWhile isspace (rev ?m) @ dropWhile isspace (rev ?m)" by simp
  have "?m = rev (dropWhile isspace (rev ?m)) @ rev (takeWhile isspace (rev ?m))"
    by (metis 2 rev_append rev_rev_ident)
  then have "l = takeWhile isspace l @ strip l @ rev (takeWhile isspace (rev ?m))"
    by (simp add: strip_def lstrip_def rstrip_def)
  moreover have "\<forall>c\<in>set (takeWhile isspace l). isspace c" by (metis set_takeWhileD)
  moreover have "\<forall>c\<in>set (rev (takeWhile isspace (rev ?m))). isspace c" 
    by (metis set_rev set_takeWhileD)
  ultimately show ?thesis by blast
qed

lemma strip_ends: "strip l \<noteq> [] \<Longrightarrow> \<not> isspace (hd (strip l)) \<and> \<not> isspace (last (strip l))"
proof -
  assume ne: "strip l \<noteq> []"
  let ?m = "dropWhile isspace l"
  let ?r = "dropWhile isspace (rev ?m)"
  have s: "strip l = rev ?r" by (simp add: strip_def lstrip_def rstrip_def)
  then have rne: "?r \<noteq> []" using ne by simp
  then have a: "\<not> isspace (hd ?r)" by (rule hd_dropWhile)
  have l: "last (strip l) = hd ?r" using s rne by (simp add: last_rev)
  have mne: "?m \<noteq> []"
  proof
    assume "?m = []"
    then have "?r = []" by (metis dropWhile.simps(1) rev.simps(1))
    with rne show False by simp
  qed
  then have b: "\<not> isspace (hd ?m)" by (rule hd_dropWhile)
  have "\<exists>ys. rev ?m = ys @ ?r \<and> (\<forall>c\<in>set ys. isspace c)"
    by (metis takeWhile_dropWhile_id set_takeWhileD)
  then obtain ys where ys: "rev ?m = ys @ ?r" by blast
  then have "?m = rev ?r @ rev ys" by (metis rev_append rev_rev_ident)
  then have "hd ?m = hd (rev ?r)" using rne by (metis hd_append2 rev_is_Nil_conv)
  then show ?thesis using a b l s by simp
qed


text \<open>
  Claim C5, as stated: a single-line query returns the line with only its trailing line
  terminator removed. It does not: the line \<open>" a\n"\<close> comes back as \<open>"a"\<close>, without
  its leading blank.
\<close>

theorem query_strip_counterexample:
  "query (scripted None) ''q'' False None None
      \<lparr>pending = ['' a\<newline>''], reads = 0, written = [], flushes = 0\<rparr>
    = Some (Inr ''a'', \<lparr>pending = [], reads = 1, written = [''q''], flushes = 1\<rparr>)
   \<and> chomp '' a\<newline>'' \<noteq> ''a''"
  by (simp add: query_def scripted_def strip_def lstrip_def rstrip_def isspace_def chomp_def)

text \<open>
  Claim C5, amended: a single-line query (no multi-line flag, no terminator) whose
  flush, write and read succeed returns the line that was read without the whitespace
  at its two ends, as \<^verbatim>\<open>str.strip()\<close> does: the line is the result between two runs of
  whitespace, and the result neither starts nor ends with whitespace.
\<close>

theorem query_single_line_strip:
  assumes "flush_input_buffer b s = (Inr (), s1)"
      and "write_msg b q s1 = (Inr (), s2)"
      and "readline b tmo s2 = (Inr l, s3)"
  shows "query b q False None tmo s = Some (Inr (strip l), s3)
       \<and> (\<exists>pre post. l = pre @ strip l @ post
             \<and> (\<forall>c\<in>set pre. isspace c) \<and> (\<forall>c\<in>set post. isspace c))
       \<and> (strip l \<noteq> [] \<longrightarrow> \<not> isspace (hd (strip l)) \<and> \<not> isspace (last (strip l)))"
  using assms strip_decomp[of l] strip_ends[of l] by (simp add: query_def)

theorem query_single_line_strip_witness:
  "query EchoInstrument '' gx  '' False None None [] = Some (Inr ''gx'', '' gx  '')"
proof -
  have 1: "flush_input_buffer EchoInstrument [] = (Inr (), [])"
    by (simp add: EchoInstrument_def)
  have 2: "write_msg EchoInstrument '' gx  '' [] = (Inr (), '' gx  '')"
    by (simp add: EchoInstrument_def)
  have 3: "readline EchoInstrument None '' gx  '' = (Inr '' gx  '', '' gx  '')"
    by (simp add: EchoInstrument_def)
  have 4: "strip '' gx  '' = ''gx''"
    by (simp add: strip_def lstrip_def rstrip_def isspace_def)
  show ?thesis using query_single_line_strip[OF 1 2 3] 4 by simp
qed

subsection \<open>Bound properties\<close>










subsection \<open>Writing a bound property\<close>






text \<open>
  Claim C7. A write to a property with a set-template and a validator calls the
  validator first, on the instrument and the value and in the state in which the write
  began; what is left of the write is the write of the same property without validator,
  in the state in which the validator ended. So when the validator raises, the write
  ends with that exception in that state, and neither the formatting nor the write to
  the transport takes place.
\<close>

theorem qp_set_validator_first:
  assumes "set_cmd p = Some cmd" and "fvalidate p = Some v"
  shows "qp_set p b val s =
           (case v b val s of
              (Inl e, s1) \<Rightarrow> (Inl e, s1)
            | (Inr u, s1) \<Rightarrow> qp_set (p\<lparr>fvalidate := None\<rparr>) b val s1)
       \<and> (\<forall>e s1. v b val s = (Inl e, s1) \<longrightarrow> qp_set p b val s = (Inl e, s1))"
  using assms by (simp add: qp_set_def split: prod.splits sum.splits)

theorem qp_set_validator_first_witness:
  "qp_set \<lparr>dtype = ''int'', get_cmd = None, set_cmd = Some ''sx {0}'',
            fvalidate = Some (\<lambda>obj val s. if val = PInt (- 1) then (Inl (Raised ''negative''), s)
                                          else (Inr (), s)),
            fdel = None\<rparr>
      (scripted None) (PInt (- 1)) \<lparr>pending = [], reads = 0, written = [], flushes = 0\<rparr>
   = (Inl (Raised ''negative''), \<lparr>pending = [], reads = 0, written = [], flushes = 0\<rparr>)"
proof -
  let ?v = "\<lambda>(obj :: script bus) val (s :: script).
              if val = PInt (- 1) then (Inl (Raised ''negative''), s) else (Inr (), s)"
  let ?p = "\<lparr>dtype = ''int'', get_cmd = None, set_cmd = Some ''sx {0}'', fvalidate = Some ?v,
              fdel = None\<rparr>"
  have 1: "set_cmd ?p = Some ''sx {0}''" by simp
  have 2: "fvalidate ?p = Some ?v" by simp
  show ?thesis
    using qp_set_validator_first[OF 1 2, of "scripted None" "PInt (- 1)"
        "\<lparr>pending = [], reads = 0, written = [], flushes = 0\<rparr>"]
    by simp
qed

subsection \<open>Integer placeholders\<close>

lemma strip_no_space:
  assumes "\<forall>c\<in>set s. \<not> isspace c"
  shows "strip s = s"
proof -
  have l: "dropWhile isspace s = s" using assms by (cases s) auto
  have "dropWhile isspace (rev s) = rev s" using assms by (cases "rev s") (auto simp: in_set_conv_decomp dest!: arg_cong[where f=set])
  then show ?thesis by (simp add: strip_def lstrip_def rstrip_def l)
qed

lemma digit_val_specials:
  "digit_val CHR ''+'' = None" "digit_val CHR ''-'' = None"
  "digit_val CHR ''x'' = Some 33" "digit_val CHR ''X'' = Some 33"
  "digit_val CHR ''o'' = Some 24" "digit_val CHR ''O'' = Some 24"
  "digit_val CHR ''0'' = Some 0"
  by (simp_all add: digit_val_def isdigit_def ord_def)

lemma digit_val_space: "isspace c \<Longrightarrow> digit_val c = None"
  unfolding isspace_def
  by (elim disjE) (simp_all add: digit_val_def isdigit_def ord_def)

lemma digit_val_not_space: "digit_val c = Some v \<Longrightarrow> \<not> isspace c"
  using digit_val_space by fastforce

lemma digits_of_D: "digits_of b ds \<Longrightarrow> c \<in> set ds \<Longrightarrow> \<exists>v. digit_val c = Some v \<and> v < b"
  by (cases "digit_val c") (auto simp: digits_of_def split: option.splits)

lemma digits_of_no_space: "digits_of b ds \<Longrightarrow> \<forall>c\<in>set ds. \<not> isspace c"
  using digits_of_D digit_val_not_space by blast



lemma split_sign_signed:
  assumes "sg \<in> {[], ''+'', ''-''}" and "body \<noteq> []" and "hd body \<noteq> CHR ''+''" and "hd body \<noteq> CHR ''-''"
  shows "split_sign (sg @ body) = (sg = ''-'', body)"
  using assms by (cases body) (auto simp: split_sign_def)

lemma py_int_core:
  assumes sg: "sg \<in> {[], ''+'', ''-''}"
      and body: "body \<noteq> []" "hd body \<noteq> CHR ''+''" "hd body \<noteq> CHR ''-''"
                "\<forall>c\<in>set body. \<not> isspace c"
      and pre: "int_prefix base body = (b, ds)"
      and ds: "digits_of b ds"
      and base: "base = 0 \<or> 2 \<le> base \<and> base \<le> 36"
  shows "py_int base (sg @ body) =
           Inr (if sg = ''-'' then - int (nat_of_digits b ds) else int (nat_of_digits b ds))"
proof -
  have "\<not> isspace CHR ''+''" "\<not> isspace CHR ''-''" by (simp_all add: isspace_def)
  then have "\<forall>c\<in>set (sg @ body). \<not> isspace c"
    using sg body(4) by auto
  then have st: "strip (sg @ body) = sg @ body" by (rule strip_no_space)
  have ok: "\<not> (base \<noteq> 0 \<and> (base < 2 \<or> 36 < base))" using base by auto
  show ?thesis
    unfolding py_int_def st split_sign_signed[OF sg body(1,2,3)]
    using ok pre ds by simp
qed

lemma digits_of_hd:
  assumes "digits_of b ds"
  shows "ds \<noteq> []" and "hd ds \<noteq> CHR ''+''" and "hd ds \<noteq> CHR ''-''"
    and "\<forall>c\<in>set ds. \<not> isspace c"
proof -
  show ne: "ds \<noteq> []" using assms by (simp add: digits_of_def)
  then have h: "hd ds \<in> set ds" by simp
  from digits_of_D[OF assms h] obtain v where v: "digit_val (hd ds) = Some v" by blast
  show "hd ds \<noteq> CHR ''+''" using v digit_val_specials(1) by auto
  show "hd ds \<noteq> CHR ''-''" using v digit_val_specials(2) by auto
  show "\<forall>c\<in>set ds. \<not> isspace c" using assms by (rule digits_of_no_space)
qed












lemma py_int_auto_zero: 
  assumes "sg \<in> {[], ''+'', ''-''}"
  shows "py_int 0 (sg @ ''0'') = Inr 0"
proof -
  have pre: "int_prefix 0 ''0'' = (10, ''0'')" by (simp add: int_prefix_def)
  have d0: "digits_of 10 ''0''" by (simp add: digits_of_def digit_val_specials)
  have "nat_of_digits 10 ''0'' = 0" by (simp add: nat_of_digits_def digit_val_specials)
  then show ?thesis
    using py_int_core[OF assms digits_of_hd[OF d0] pre d0] by simp
qed









end
